theory Spec2Isabelle
  imports Main "HOL-Library.Sublist"
begin

section \<open>Model persistence layer of the fluid framework (python/paddle/v2/fluid/io.py)\<close>

text \<open>
  The module \<^verbatim>\<open>io.py\<close> selects variables of a computation graph, emits
  \<^verbatim>\<open>save\<close>/\<^verbatim>\<open>load\<close> operators into a fresh graph, hands that graph to an injected
  executor, and writes or reads the serialized inference graph in the file
  \<^verbatim>\<open>__model__\<close>. Its functions are embedded below as state transformers on
  a \<open>world\<close>: the heap of \<^verbatim>\<open>Program\<close> objects, the default main program, the file
  system and the log of executor runs. A raised exception is the \<open>Inl\<close> branch of the
  result, returned together with the world as it is at the moment of the raise.
\<close>

subsection \<open>Python values and exceptions\<close>

datatype error =
    TypeError string
  | ValueError string
  | AssertionError
  | AttributeError
  | IndexError
  | StopIteration
  | IOError
  | OSError
  | FrameworkError string

datatype vartype = LOD_TENSOR | FEED_MINIBATCH | FETCH_LIST | OTHER_VARTYPE nat

text \<open>
  A \<^verbatim>\<open>Variable\<close> of the framework, with the fields \<^verbatim>\<open>io.py\<close> reads. \<^verbatim>\<open>Parameter\<close> is
  a subclass of \<^verbatim>\<open>Variable\<close>; \<open>is_Parameter\<close> records the class of the object, so
  that \<^verbatim>\<open>isinstance(var, Parameter)\<close> is the field and \<^verbatim>\<open>isinstance(var, Variable)\<close>
  holds of every value of this type.
\<close>

record variable =
  name :: string
  shape :: "int list option"
  dtype :: "string option"
  type :: vartype
  lod_level :: "nat option"
  persistable :: bool
  is_Parameter :: bool

text \<open>
  The objects a caller can pass where \<^verbatim>\<open>io.py\<close> tests the argument dynamically. A
  \<^verbatim>\<open>Program\<close> is passed by reference (its address in the heap of the world); an
  \<^verbatim>\<open>Evaluator\<close> carries its \<^verbatim>\<open>states\<close> and \<^verbatim>\<open>metrics\<close>; \<open>PyOther\<close> is any other
  object: truthy, not iterable, not a string.
\<close>

datatype pyobj =
    PyNone
  | PyStr string
  | PyVar variable
  | PyProgram nat
  | PyEvaluator "pyobj list" "pyobj list"
  | PyList "pyobj list"
  | PyOther

fun isinstance_basestring :: "pyobj \<Rightarrow> bool" where
  "isinstance_basestring (PyStr s) = True"
| "isinstance_basestring x = False"

fun isinstance_Variable :: "pyobj \<Rightarrow> bool" where
  "isinstance_Variable (PyVar v) = True"
| "isinstance_Variable x = False"

fun isinstance_Program :: "pyobj \<Rightarrow> bool" where
  "isinstance_Program (PyProgram a) = True"
| "isinstance_Program x = False"

fun the_Program :: "pyobj \<Rightarrow> nat" where
  "the_Program (PyProgram a) = a"
| "the_Program x = 0"


subsection \<open>The framework's graph objects\<close>

datatype attr = AttrStr string | AttrInt int

text \<open>
  An operator as its description holds it: the type, the input and output slots with the
  names of their arguments (the framework stores a \<^verbatim>\<open>Variable\<close> argument by its name
  and a string argument as it is), and the attributes.
\<close>

record operator =
  op_type :: string
  inputs :: "(string \<times> string list) list"
  outputs :: "(string \<times> string list) list"
  attrs :: "(string \<times> attr) list"

text \<open>
  A block: its variables in the order \<^verbatim>\<open>list_vars\<close> yields them, each stored under
  its own name, and its operators in order.
\<close>

record block =
  vars :: "variable list"
  ops :: "operator list"

text \<open>
  A \<^verbatim>\<open>Program\<close> always has its global block (block 0); further blocks follow.
\<close>

record program =
  global_block :: block
  sub_blocks :: "block list"

definition Program :: program where
  "Program = \<lparr>global_block = \<lparr>vars = [], ops = []\<rparr>, sub_blocks = []\<rparr>"

definition list_vars :: "program \<Rightarrow> variable list" where
  "list_vars p = vars (global_block p) @ concat (map vars (sub_blocks p))"

text \<open>
  Modelled from the spec: the methods of the framework's \<^verbatim>\<open>Block\<close> class, which is
  not part of \<^verbatim>\<open>io.py\<close>. \<^verbatim>\<open>create_var\<close> makes a plain \<^verbatim>\<open>Variable\<close> (never a
  \<^verbatim>\<open>Parameter\<close>) and stores it in the block under its name, in the place of a variable
  of that name when there is one; \<^verbatim>\<open>var\<close> looks a name up and raises \<^verbatim>\<open>ValueError\<close>
  when the block has no such variable; \<^verbatim>\<open>append_op\<close> and \<^verbatim>\<open>prepend_op\<close> put the
  new operator node at the end and at the front of the block's operators.
\<close>

fun store_var :: "variable \<Rightarrow> variable list \<Rightarrow> variable list" where
  "store_var v [] = [v]"
| "store_var v (u # us) = (if name u = name v then v # us else u # store_var v us)"

definition create_var ::
  "block \<Rightarrow> string \<Rightarrow> int list option \<Rightarrow> string option \<Rightarrow> vartype \<Rightarrow> nat option \<Rightarrow> bool
    \<Rightarrow> block \<times> variable" where
  "create_var b n sh dt ty lod pers =
     (let v = \<lparr>name = n, shape = sh, dtype = dt, type = ty, lod_level = lod,
                persistable = pers, is_Parameter = False\<rparr>
      in (b\<lparr>vars := store_var v (vars b)\<rparr>, v))"

definition block_var :: "block \<Rightarrow> string \<Rightarrow> error + variable" where
  "block_var b n =
     (case find (\<lambda>v. name v = n) (vars b) of
        None \<Rightarrow> Inl (ValueError ''var not in this block'')
      | Some v \<Rightarrow> Inr v)"

definition append_op :: "block \<Rightarrow> operator \<Rightarrow> block" where
  "append_op b opr = b\<lparr>ops := ops b @ [opr]\<rparr>"

definition prepend_op :: "block \<Rightarrow> operator \<Rightarrow> block" where
  "prepend_op b opr = b\<lparr>ops := opr # ops b\<rparr>"

text \<open>
  The operator description's accessors \<^verbatim>\<open>op.desc.output(slot)[0]\<close> and
  \<^verbatim>\<open>op.desc.input(slot)[0]\<close>: a slot the operator does not have is an error of the
  framework, an empty slot an \<^verbatim>\<open>IndexError\<close>.
\<close>

definition first_arg :: "(string \<times> string list) list \<Rightarrow> string \<Rightarrow> error + string" where
  "first_arg slots slot =
     (case map_of slots slot of
        None \<Rightarrow> Inl (FrameworkError ''slot cannot be found in op'')
      | Some [] \<Rightarrow> Inl IndexError
      | Some (x # xs) \<Rightarrow> Inr x)"

text \<open>
  The rest of the framework is taken as a parameter: pruning a program to a list of
  targets, the inference rewrite of a program, and the (de)serialization of a program
  description. \<^verbatim>\<open>prune\<close> and \<^verbatim>\<open>parse_from_string\<close> may raise, which is the
  result \<open>None\<close>; the callers below turn it into a \<open>FrameworkError\<close>.
\<close>

record framework =
  prune :: "program \<Rightarrow> pyobj list \<Rightarrow> program option"
  inference_optimize :: "program \<Rightarrow> program"
  serialize_to_string :: "program \<Rightarrow> string"
  parse_from_string :: "string \<Rightarrow> program option"

subsection \<open>The file system\<close>

text \<open>
  \<^verbatim>\<open>os.path.join\<close> of two components, as \<^verbatim>\<open>posixpath\<close> defines it: an absolute
  second component replaces the first, and a separator is inserted unless the first is
  empty or ends with one.
\<close>

definition os_path_join :: "string \<Rightarrow> string \<Rightarrow> string" where
  "os_path_join a b =
     (if take 1 b = ''/'' then b
      else if a = [] \<or> last a = CHR ''/'' then a @ b
      else a @ ''/'' @ b)"

text \<open>
  Modelled from the spec: the operating system's files and directories, which \<^verbatim>\<open>io.py\<close>
  reaches through \<^verbatim>\<open>os\<close> and \<^verbatim>\<open>open\<close>. A path string denotes the list of its
  components (empty components and \<^verbatim>\<open>.\<close> dropped, a leading separator kept as the
  root component); the file system is the list of existing directories and the files
  with their contents. Links and \<^verbatim>\<open>..\<close> are not modelled.
\<close>

type_synonym path = "string list"

fun split_path :: "string \<Rightarrow> string \<Rightarrow> string list" where
  "split_path acc [] = [rev acc]"
| "split_path acc (c # cs) =
     (if c = CHR ''/'' then rev acc # split_path [] cs else split_path (c # acc) cs)"

definition components :: "string \<Rightarrow> path" where
  "components s =
     (if take 1 s = ''/'' then [''/''] else [])
       @ filter (\<lambda>c. c \<noteq> [] \<and> c \<noteq> ''.'') (split_path [] s)"

record filesys =
  dirs :: "path list"
  files :: "(path \<times> string) list"

definition os_path_isdir :: "filesys \<Rightarrow> string \<Rightarrow> bool" where
  "os_path_isdir f s = (s \<noteq> [] \<and> components s \<in> set (dirs f))"

definition read_file :: "filesys \<Rightarrow> string \<Rightarrow> string option" where
  "read_file f s = map_of (files f) (components s)"

fun put_file :: "path \<Rightarrow> string \<Rightarrow> (path \<times> string) list \<Rightarrow> (path \<times> string) list" where
  "put_file p c [] = [(p, c)]"
| "put_file p c ((q, d) # fs) = (if q = p then (p, c) # fs else (q, d) # put_file p c fs)"

text \<open>
  \<^verbatim>\<open>os.makedirs\<close> creates the directory and its missing ancestors; it raises
  \<^verbatim>\<open>OSError\<close> when the path is empty, when it exists already, or when a file is in the
  way.
\<close>

definition os_makedirs :: "filesys \<Rightarrow> string \<Rightarrow> error + filesys" where
  "os_makedirs f s =
     (let p = components s in
      if s = [] \<or> p \<in> set (dirs f) \<or> list_ex (\<lambda>q. q \<in> fst ` set (files f)) (prefixes p)
      then Inl OSError
      else Inr (f\<lparr>dirs := dirs f @ filter (\<lambda>q. q \<notin> set (dirs f)) (prefixes p)\<rparr>))"


text \<open>
  \<^verbatim>\<open>next(os.walk(dirname))[2]\<close>: the names of the files directly in the directory.
  \<^verbatim>\<open>os.walk\<close> yields nothing for a path that cannot be listed, and \<^verbatim>\<open>next\<close> then
  raises \<^verbatim>\<open>StopIteration\<close>.
\<close>

definition walk_filenames :: "filesys \<Rightarrow> string \<Rightarrow> error + string list" where
  "walk_filenames f s =
     (if os_path_isdir f s
      then Inr (map (last \<circ> fst)
                 (filter (\<lambda>(p, c). p \<noteq> [] \<and> butlast p = components s) (files f)))
      else Inl StopIteration)"

subsection \<open>The world and the executor\<close>

text \<open>
  The heap holds the \<^verbatim>\<open>Program\<close> objects by address; addresses below
  \<open>next_program\<close> are allocated. \<open>run_log\<close> lists the programs handed to
  \<^verbatim>\<open>executor.run\<close>, oldest first.
\<close>

record world =
  programs :: "nat \<Rightarrow> program"
  next_program :: nat
  default_main :: nat
  fs :: filesys
  run_log :: "nat list"

type_synonym 'a result = "(error + 'a) \<times> world"

definition default_main_program :: "world \<Rightarrow> nat" where
  "default_main_program w = default_main w"

definition new_Program :: "program \<Rightarrow> world \<Rightarrow> nat \<times> world" where
  "new_Program p w =
     (next_program w,
      w\<lparr>programs := (programs w)(next_program w := p), next_program := Suc (next_program w)\<rparr>)"

definition set_global_block :: "nat \<Rightarrow> block \<Rightarrow> world \<Rightarrow> world" where
  "set_global_block a b w =
     w\<lparr>programs := (programs w)(a := (programs w a)\<lparr>global_block := b\<rparr>)\<rparr>"

text \<open>
  Modelled from the spec: the injected executor, which is not part of \<^verbatim>\<open>io.py\<close>.
  Running a program executes the operators of its global block in order; a
  \<^verbatim>\<open>save\<close> operator writes the tensor of its input variable to the file named by its
  \<^verbatim>\<open>file_path\<close> attribute, and no other operator changes the file system. The
  executor is given by the bytes it holds for each variable name. Failures inside the
  executor are not modelled.
\<close>

record executor =
  tensor_bytes :: "string \<Rightarrow> string"

definition run_op :: "executor \<Rightarrow> operator \<Rightarrow> filesys \<Rightarrow> filesys" where
  "run_op ex opr f =
     (if op_type opr = ''save''
      then (case (map_of (attrs opr) ''file_path'', map_of (inputs opr) ''X'') of
              (Some (AttrStr p), Some (x # xs)) \<Rightarrow>
                f\<lparr>files := put_file (components p) (tensor_bytes ex x) (files f)\<rparr>
            | _ \<Rightarrow> f)
      else f)"

definition executor_run :: "executor \<Rightarrow> nat \<Rightarrow> world \<Rightarrow> unit result" where
  "executor_run ex a w =
     (Inr (),
      w\<lparr>fs := fold (run_op ex) (ops (global_block (programs w a))) (fs w),
        run_log := run_log w @ [a]\<rparr>)"

subsection \<open>Selecting variables\<close>

definition is_parameter :: "variable \<Rightarrow> bool" where
  "is_parameter var = is_Parameter var"

definition is_persistable :: "variable \<Rightarrow> bool" where
  "is_persistable var = persistable var"

text \<open>
  \<^verbatim>\<open>filter(predicate, xs)\<close> of Python 2: with \<^verbatim>\<open>None\<close> for the predicate it keeps
  the truthy elements, which every \<^verbatim>\<open>Variable\<close> is.
\<close>

definition filter_py :: "(variable \<Rightarrow> bool) option \<Rightarrow> variable list \<Rightarrow> variable list" where
  "filter_py predicate xs = (case predicate of None \<Rightarrow> xs | Some p \<Rightarrow> filter p xs)"

definition clone_var_in_block :: "block \<Rightarrow> pyobj \<Rightarrow> error + block \<times> variable" where
  "clone_var_in_block b var =
     (case var of
        PyVar v \<Rightarrow> Inr (create_var b (name v) (shape v) (dtype v) (type v) (lod_level v) True)
      | _ \<Rightarrow> Inl AssertionError)"

subsection \<open>save_vars and load_vars\<close>

definition save_op :: "string \<Rightarrow> variable \<Rightarrow> operator" where
  "save_op dirname new_var =
     \<lparr>op_type = ''save'', inputs = [(''X'', [name new_var])], outputs = [],
      attrs = [(''file_path'', AttrStr (os_path_join dirname (name new_var)))]\<rparr>"

definition load_op :: "string \<Rightarrow> variable \<Rightarrow> operator" where
  "load_op dirname new_var =
     \<lparr>op_type = ''load'', inputs = [], outputs = [(''Out'', [name new_var])],
      attrs = [(''file_path'', AttrStr (os_path_join dirname (name new_var)))]\<rparr>"

text \<open>
  The loop over \<^verbatim>\<open>vars\<close> in the second branch of \<^verbatim>\<open>save_vars\<close>, on the block of
  the fresh program. A failed assertion leaves the block as built so far.
\<close>

fun save_each :: "string \<Rightarrow> pyobj list \<Rightarrow> block \<Rightarrow> (error + unit) \<times> block" where
  "save_each dirname [] save_block = (Inr (), save_block)"
| "save_each dirname (each_var # rest) save_block =
     (case clone_var_in_block save_block each_var of
        Inl e \<Rightarrow> (Inl e, save_block)
      | Inr (b, new_var) \<Rightarrow> save_each dirname rest (append_op b (save_op dirname new_var)))"

fun load_each :: "string \<Rightarrow> pyobj list \<Rightarrow> block \<Rightarrow> (error + unit) \<times> block" where
  "load_each dirname [] load_block = (Inr (), load_block)"
| "load_each dirname (each_var # rest) load_block =
     (if \<not> isinstance_Variable each_var then (Inl AssertionError, load_block)
      else case clone_var_in_block load_block each_var of
        Inl e \<Rightarrow> (Inl e, load_block)
      | Inr (b, new_var) \<Rightarrow> load_each dirname rest (append_op b (load_op dirname new_var)))"

function save_vars ::
  "executor \<Rightarrow> string \<Rightarrow> pyobj \<Rightarrow> pyobj list option \<Rightarrow> (variable \<Rightarrow> bool) option \<Rightarrow> world
    \<Rightarrow> unit result" where
  "save_vars ex dirname main_program None predicate w =
     (let main_program =
            (if main_program = PyNone then PyProgram (default_main_program w) else main_program)
      in if \<not> isinstance_Program main_program
         then (Inl (TypeError ''program should be as Program type or None''), w)
         else save_vars ex dirname PyNone
                (Some (map PyVar
                   (filter_py predicate (list_vars (programs w (the_Program main_program))))))
                None w)"
| "save_vars ex dirname main_program (Some vs) predicate w =
     (let (save_program, w1) = new_Program Program w;
          (r, save_block) = save_each dirname vs (global_block (programs w1 save_program));
          w2 = set_global_block save_program save_block w1
      in case r of
           Inl e \<Rightarrow> (Inl e, w2)
         | Inr u \<Rightarrow> executor_run ex save_program w2)"
  by pat_completeness auto
termination
  by (relation "measure (\<lambda>(ex, dirname, main_program, vs, predicate, w).
        case vs of None \<Rightarrow> Suc 0 | Some x \<Rightarrow> 0)") auto

function load_vars ::
  "executor \<Rightarrow> string \<Rightarrow> pyobj \<Rightarrow> pyobj list option \<Rightarrow> (variable \<Rightarrow> bool) option \<Rightarrow> world
    \<Rightarrow> unit result" where
  "load_vars ex dirname main_program None predicate w =
     (let main_program =
            (if main_program = PyNone then PyProgram (default_main_program w) else main_program)
      in if \<not> isinstance_Program main_program
         then (Inl (TypeError ''program's type should be Program''), w)
         else load_vars ex dirname PyNone
                (Some (map PyVar
                   (filter_py predicate (list_vars (programs w (the_Program main_program))))))
                None w)"
| "load_vars ex dirname main_program (Some vs) predicate w =
     (let (load_prog, w1) = new_Program Program w;
          (r, load_block) = load_each dirname vs (global_block (programs w1 load_prog));
          w2 = set_global_block load_prog load_block w1
      in case r of
           Inl e \<Rightarrow> (Inl e, w2)
         | Inr u \<Rightarrow> executor_run ex load_prog w2)"
  by pat_completeness auto
termination
  by (relation "measure (\<lambda>(ex, dirname, main_program, vs, predicate, w).
        case vs of None \<Rightarrow> Suc 0 | Some x \<Rightarrow> 0)") auto

definition save_params :: "executor \<Rightarrow> string \<Rightarrow> pyobj \<Rightarrow> world \<Rightarrow> unit result" where
  "save_params ex dirname main_program w =
     save_vars ex dirname main_program None (Some is_parameter) w"

definition save_persistables :: "executor \<Rightarrow> string \<Rightarrow> pyobj \<Rightarrow> world \<Rightarrow> unit result" where
  "save_persistables ex dirname main_program w =
     save_vars ex dirname main_program None (Some is_persistable) w"

definition load_params :: "executor \<Rightarrow> string \<Rightarrow> pyobj \<Rightarrow> world \<Rightarrow> unit result" where
  "load_params ex dirname main_program w =
     load_vars ex dirname main_program None (Some is_parameter) w"

definition load_persistables :: "executor \<Rightarrow> string \<Rightarrow> pyobj \<Rightarrow> world \<Rightarrow> unit result" where
  "load_persistables ex dirname main_program w =
     load_vars ex dirname main_program None (Some is_persistable) w"

subsection \<open>Building the inference program\<close>




definition feed_op :: "variable \<Rightarrow> variable \<Rightarrow> nat \<Rightarrow> operator" where
  "feed_op feed_var out i =
     \<lparr>op_type = ''feed'', inputs = [(''X'', [name feed_var])], outputs = [(''Out'', [name out])],
      attrs = [(''col'', AttrInt (int i))]\<rparr>"

definition fetch_op :: "variable \<Rightarrow> string \<Rightarrow> nat \<Rightarrow> operator" where
  "fetch_op fetch_var n i =
     \<lparr>op_type = ''fetch'', inputs = [(''X'', [n])], outputs = [(''Out'', [name fetch_var])],
      attrs = [(''col'', AttrInt (int i))]\<rparr>"

text \<open>
  The loop of \<^verbatim>\<open>prepend_feed_ops\<close> over \<^verbatim>\<open>enumerate(feed_target_names)\<close>, from index
  \<open>i\<close> on. \<^verbatim>\<open>global_block.var(name)\<close> raises for a name the block does not have,
  and the block keeps the operators prepended before.
\<close>

fun prepend_feed_each ::
  "variable \<Rightarrow> nat \<Rightarrow> string list \<Rightarrow> block \<Rightarrow> (error + unit) \<times> block" where
  "prepend_feed_each feed_var i [] b = (Inr (), b)"
| "prepend_feed_each feed_var i (n # rest) b =
     (case block_var b n of
        Inl e \<Rightarrow> (Inl e, b)
      | Inr out \<Rightarrow> prepend_feed_each feed_var (Suc i) rest (prepend_op b (feed_op feed_var out i)))"

definition prepend_feed_ops :: "nat \<Rightarrow> string list \<Rightarrow> string \<Rightarrow> world \<Rightarrow> unit result" where
  "prepend_feed_ops inference_program feed_target_names feed_holder_name w =
     (let (b, feed_var) =
            create_var (global_block (programs w inference_program)) feed_holder_name
              None None FEED_MINIBATCH None True;
          (r, b') = prepend_feed_each feed_var 0 feed_target_names b
      in (r, set_global_block inference_program b' w))"

fun append_fetch_each :: "variable \<Rightarrow> nat \<Rightarrow> string list \<Rightarrow> block \<Rightarrow> block" where
  "append_fetch_each fetch_var i [] b = b"
| "append_fetch_each fetch_var i (n # rest) b =
     append_fetch_each fetch_var (Suc i) rest (append_op b (fetch_op fetch_var n i))"

definition append_fetch_ops :: "nat \<Rightarrow> string list \<Rightarrow> string \<Rightarrow> world \<Rightarrow> unit result" where
  "append_fetch_ops inference_program fetch_target_names fetch_holder_name w =
     (let (b, fetch_var) =
            create_var (global_block (programs w inference_program)) fetch_holder_name
              None None FETCH_LIST None True;
          b' = append_fetch_each fetch_var 0 fetch_target_names b
      in (Inr (), set_global_block inference_program b' w))"

subsection \<open>save_inference_model\<close>

text \<open>Truth value and iteration of a Python object.\<close>

fun py_bool :: "pyobj \<Rightarrow> bool" where
  "py_bool PyNone = False"
| "py_bool (PyStr s) = (s \<noteq> [])"
| "py_bool (PyList xs) = (xs \<noteq> [])"
| "py_bool x = True"

fun py_iter :: "pyobj \<Rightarrow> error + pyobj list" where
  "py_iter (PyList xs) = Inr xs"
| "py_iter (PyStr s) = Inr (map (\<lambda>c. PyStr [c]) s)"
| "py_iter x = Inl (TypeError ''object is not iterable'')"

text \<open>
  The two argument checks at the head of \<^verbatim>\<open>save_inference_model\<close>: a single string
  (a single \<^verbatim>\<open>Variable\<close>) is wrapped into a list; anything else must be truthy and
  hold strings (variables) only.
\<close>

definition check_feeded_var_names :: "pyobj \<Rightarrow> error + pyobj list" where
  "check_feeded_var_names feeded_var_names =
     (if isinstance_basestring feeded_var_names then Inr [feeded_var_names]
      else if \<not> py_bool feeded_var_names
      then Inl (ValueError '''feed_var_names' should be a list of str.'')
      else case py_iter feeded_var_names of
             Inl e \<Rightarrow> Inl e
           | Inr xs \<Rightarrow>
               if list_all isinstance_basestring xs then Inr xs
               else Inl (ValueError '''feed_var_names' should be a list of str.''))"

definition check_target_vars :: "pyobj \<Rightarrow> error + pyobj list" where
  "check_target_vars target_vars =
     (if isinstance_Variable target_vars then Inr [target_vars]
      else if \<not> py_bool target_vars
      then Inl (ValueError '''target_vars' should be a list of Variable.'')
      else case py_iter target_vars of
             Inl e \<Rightarrow> Inl e
           | Inr xs \<Rightarrow>
               if list_all isinstance_Variable xs then Inr xs
               else Inl (ValueError '''target_vars' should be a list of Variable.''))"


text \<open>Sequencing: an exception ends the computation with the world reached so far.\<close>

definition seq :: "'a result \<Rightarrow> ('a \<Rightarrow> world \<Rightarrow> 'b result) \<Rightarrow> 'b result" where
  "seq r k = (case r of (Inl e, w) \<Rightarrow> (Inl e, w) | (Inr x, w) \<Rightarrow> k x w)"

definition lift :: "error + 'a \<Rightarrow> world \<Rightarrow> 'a result" where
  "lift r w = (r, w)"

definition ensure_dir :: "string \<Rightarrow> world \<Rightarrow> unit result" where
  "ensure_dir dirname w =
     (if \<not> os_path_isdir (fs w) dirname
      then (case os_makedirs (fs w) dirname of
              Inl e \<Rightarrow> (Inl e, w)
            | Inr f \<Rightarrow> (Inr (), w\<lparr>fs := f\<rparr>))
      else (Inr (), w))"



subsection \<open>Loading\<close>

definition load_persistables_if_exist ::
  "executor \<Rightarrow> string \<Rightarrow> pyobj \<Rightarrow> world \<Rightarrow> unit result" where
  "load_persistables_if_exist ex dirname main_program w =
     (case walk_filenames (fs w) dirname of
        Inl e \<Rightarrow> (Inl e, w)
      | Inr filenames \<Rightarrow>
          load_vars ex dirname main_program None
            (Some (\<lambda>var. if \<not> is_persistable var then False else name var \<in> set filenames)) w)"

fun feed_targets_loop :: "operator list \<Rightarrow> string list \<Rightarrow> error + string list" where
  "feed_targets_loop [] feed_targets_names = Inr feed_targets_names"
| "feed_targets_loop (opr # rest) feed_targets_names =
     (if op_type opr = ''feed''
      then (case first_arg (outputs opr) ''Out'' of
              Inl e \<Rightarrow> Inl e
            | Inr n \<Rightarrow> feed_targets_loop rest (n # feed_targets_names))
      else feed_targets_loop rest feed_targets_names)"

definition get_feed_targets_names :: "program \<Rightarrow> error + string list" where
  "get_feed_targets_names p = feed_targets_loop (ops (global_block p)) []"

fun fetch_targets_loop :: "operator list \<Rightarrow> string list \<Rightarrow> error + string list" where
  "fetch_targets_loop [] fetch_targets_names = Inr fetch_targets_names"
| "fetch_targets_loop (opr # rest) fetch_targets_names =
     (if op_type opr = ''fetch''
      then (case first_arg (inputs opr) ''X'' of
              Inl e \<Rightarrow> Inl e
            | Inr n \<Rightarrow> fetch_targets_loop rest (fetch_targets_names @ [n]))
      else fetch_targets_loop rest fetch_targets_names)"

definition get_fetch_targets_names :: "program \<Rightarrow> error + string list" where
  "get_fetch_targets_names p = fetch_targets_loop (ops (global_block p)) []"

fun block_vars :: "block \<Rightarrow> string list \<Rightarrow> error + variable list" where
  "block_vars b [] = Inr []"
| "block_vars b (n # ns) =
     (case block_var b n of
        Inl e \<Rightarrow> Inl e
      | Inr v \<Rightarrow> (case block_vars b ns of Inl e \<Rightarrow> Inl e | Inr vs \<Rightarrow> Inr (v # vs)))"

definition parse_program :: "framework \<Rightarrow> string \<Rightarrow> world \<Rightarrow> nat result" where
  "parse_program fw program_desc_str w =
     (case parse_from_string fw program_desc_str of
        None \<Rightarrow> (Inl (FrameworkError ''parse_from_string''), w)
      | Some p \<Rightarrow> (let (program, w1) = new_Program p w in (Inr program, w1)))"

definition no_directory :: error where
  "no_directory = ValueError (''There is no directory named '%s'' @ [CHR 0x27])"

definition load_inference_model ::
  "framework \<Rightarrow> string \<Rightarrow> executor \<Rightarrow> world \<Rightarrow> (nat \<times> string list \<times> variable list) result" where
  "load_inference_model fw dirname ex w =
     (if \<not> os_path_isdir (fs w) dirname then (Inl no_directory, w)
      else case read_file (fs w) (dirname @ ''/__model__'') of
             None \<Rightarrow> (Inl IOError, w)
           | Some program_desc_str \<Rightarrow>
     seq (parse_program fw program_desc_str w) (\<lambda>program w.
     seq (load_persistables_if_exist ex dirname (PyProgram program) w) (\<lambda>u w.
     seq (lift (get_feed_targets_names (programs w program)) w) (\<lambda>feed_target_names w.
     seq (lift (get_fetch_targets_names (programs w program)) w) (\<lambda>fetch_target_names w.
     seq (lift (block_vars (global_block (programs w program)) fetch_target_names) w)
       (\<lambda>fetch_targets w.
     (Inr (program, feed_target_names, fetch_targets), w)))))))"

subsection \<open>A small program, world and framework\<close>

text \<open>
  A one-layer network \<open>y = x * w\<close> with a trainable parameter \<open>w\<close> and a running
  statistic \<open>mean\<close> that is persistable without being a parameter.
\<close>

definition var_x :: variable where
  "var_x = \<lparr>name = ''x'', shape = Some [-1, 4], dtype = Some ''float32'', type = LOD_TENSOR,
            lod_level = Some 0, persistable = False, is_Parameter = False\<rparr>"

definition var_w :: variable where
  "var_w = \<lparr>name = ''w'', shape = Some [4, 2], dtype = Some ''float32'', type = LOD_TENSOR,
            lod_level = Some 0, persistable = True, is_Parameter = True\<rparr>"

definition var_mean :: variable where
  "var_mean = \<lparr>name = ''mean'', shape = Some [2], dtype = Some ''float32'', type = LOD_TENSOR,
               lod_level = Some 0, persistable = True, is_Parameter = False\<rparr>"

definition var_y :: variable where
  "var_y = \<lparr>name = ''y'', shape = Some [-1, 2], dtype = Some ''float32'', type = LOD_TENSOR,
            lod_level = Some 0, persistable = False, is_Parameter = False\<rparr>"

definition mul_op :: operator where
  "mul_op = \<lparr>op_type = ''mul'', inputs = [(''X'', [''x'']), (''Y'', [''w''])],
             outputs = [(''Out'', [''y''])], attrs = []\<rparr>"

definition net :: program where
  "net = \<lparr>global_block = \<lparr>vars = [var_x, var_w, var_mean, var_y], ops = [mul_op]\<rparr>,
          sub_blocks = []\<rparr>"

definition feed_var0 :: variable where
  "feed_var0 = \<lparr>name = ''feed'', shape = None, dtype = None, type = FEED_MINIBATCH,
                lod_level = None, persistable = True, is_Parameter = False\<rparr>"

definition fetch_var0 :: variable where
  "fetch_var0 = \<lparr>name = ''fetch'', shape = None, dtype = None, type = FETCH_LIST,
                 lod_level = None, persistable = True, is_Parameter = False\<rparr>"

text \<open>The inference program of \<open>net\<close> for the input \<open>x\<close> and the output \<open>y\<close>.\<close>

definition served_net :: program where
  "served_net =
     \<lparr>global_block =
        \<lparr>vars = [var_x, var_w, var_mean, var_y, feed_var0, fetch_var0],
         ops = [\<lparr>op_type = ''feed'', inputs = [(''X'', [''feed''])],
                 outputs = [(''Out'', [''x''])], attrs = [(''col'', AttrInt 0)]\<rparr>,
                mul_op,
                \<lparr>op_type = ''fetch'', inputs = [(''X'', [''y''])],
                 outputs = [(''Out'', [''fetch''])], attrs = [(''col'', AttrInt 0)]\<rparr>]\<rparr>,
      sub_blocks = []\<rparr>"

definition disk :: filesys where
  "disk = \<lparr>dirs = [[], [''model'']],
           files = [([''model'', ''__model__''], ''feedmulfetch''),
                    ([''model'', ''w''], ''0101''),
                    ([''model'', ''notes.txt''], ''hello'')]\<rparr>"

definition world0 :: world where
  "world0 = \<lparr>programs = (\<lambda>a. if a = 0 then net else if a = 1 then served_net else Program),
              next_program = 2, default_main = 0,
              fs = \<lparr>dirs = [[]], files = []\<rparr>, run_log = []\<rparr>"

definition world1 :: world where
  "world1 = world0\<lparr>fs := disk\<rparr>"

definition framework0 :: framework where
  "framework0 =
     \<lparr>prune = (\<lambda>p targets. Some p), inference_optimize = (\<lambda>p. p),
      serialize_to_string = (\<lambda>p. concat (map op_type (ops (global_block p)))),
      parse_from_string =
        (\<lambda>s. if s = ''feedmulfetch'' then Some served_net else None)\<rparr>"

definition executor0 :: executor where
  "executor0 = \<lparr>tensor_bytes = (\<lambda>n. ''tensor of '' @ n)\<rparr>"

subsection \<open>Worlds reached by the second branch of save_vars and load_vars\<close>

text \<open>
  \<open>built w b\<close> is the world \<open>w\<close> with a new program whose global block is \<open>b\<close>;
  \<open>ran ex w b\<close> is that world after the executor has run the new program.
  \<open>fresh_only t w r\<close> says of a result \<open>r\<close> reached from \<open>w\<close>: every program but the
  new one is as before, and the executor ran once, on the new program, which holds
  operators of type \<open>t\<close> only, exactly when the call completed.
\<close>

definition built :: "world \<Rightarrow> block \<Rightarrow> world" where
  "built w b =
     w\<lparr>programs := (programs w)(next_program w := Program\<lparr>global_block := b\<rparr>),
       next_program := Suc (next_program w)\<rparr>"

definition ran :: "executor \<Rightarrow> world \<Rightarrow> block \<Rightarrow> world" where
  "ran ex w b =
     (built w b)\<lparr>fs := fold (run_op ex) (ops b) (fs w), run_log := run_log w @ [next_program w]\<rparr>"

definition fresh_only :: "string \<Rightarrow> world \<Rightarrow> unit result \<Rightarrow> bool" where
  "fresh_only t w r =
     ((\<forall>a. a \<noteq> next_program w \<longrightarrow> programs (snd r) a = programs w a) \<and>
      default_main (snd r) = default_main w \<and>
      (if fst r = Inr ()
       then run_log (snd r) = run_log w @ [next_program w] \<and>
            next_program (snd r) = Suc (next_program w) \<and>
            sub_blocks (programs (snd r) (next_program w)) = [] \<and>
            list_all (\<lambda>opr. op_type opr = t) (ops (global_block (programs (snd r) (next_program w))))
       else run_log (snd r) = run_log w \<and> fs (snd r) = fs w))"

text \<open>
  The \<^verbatim>\<open>feed\<close> and \<^verbatim>\<open>fetch\<close> operators as they stand in a block, by the names of
  the holder variable and of the fed or fetched variable, with the column.
\<close>

definition feed_node :: "string \<Rightarrow> string \<Rightarrow> nat \<Rightarrow> operator" where
  "feed_node holder n i =
     \<lparr>op_type = ''feed'', inputs = [(''X'', [holder])], outputs = [(''Out'', [n])],
      attrs = [(''col'', AttrInt (int i))]\<rparr>"

definition fetch_node :: "string \<Rightarrow> string \<Rightarrow> nat \<Rightarrow> operator" where
  "fetch_node holder n i =
     \<lparr>op_type = ''fetch'', inputs = [(''X'', [n])], outputs = [(''Out'', [holder])],
      attrs = [(''col'', AttrInt (int i))]\<rparr>"

text \<open>
  The inference program with its markers, in the words of the interface: the program
  \<open>q\<close> with one \<^verbatim>\<open>feed\<close> operator per feed name prepended (column \<open>i\<close> for the
  \<open>i\<close>-th name, the last name first) and one \<^verbatim>\<open>fetch\<close> operator per fetch name
  appended, and with the two holder variables \<^verbatim>\<open>feed\<close> and \<^verbatim>\<open>fetch\<close>.
\<close>

definition marked :: "program \<Rightarrow> string list \<Rightarrow> string list \<Rightarrow> program" where
  "marked q feeds fetches =
     q\<lparr>global_block := (global_block q)
        \<lparr>vars := store_var fetch_var0 (store_var feed_var0 (vars (global_block q))),
         ops := rev (map (\<lambda>(j, n). feed_node ''feed'' n j) (enumerate 0 feeds))
                  @ ops (global_block q)
                  @ map (\<lambda>(j, n). fetch_node ''fetch'' n j) (enumerate 0 fetches)\<rparr>\<rparr>"


section \<open>Properties\<close>

subsection \<open>The loops over the variables\<close>

lemma clone_PyVar_ex:
  "\<exists>b' nv. clone_var_in_block b (PyVar v) = Inr (b', nv) \<and> name nv = name v \<and> ops b' = ops b"
  by (simp add: clone_var_in_block_def create_var_def Let_def)

lemma clone_not_Variable:
  "\<not> isinstance_Variable x \<Longrightarrow> clone_var_in_block b x = Inl AssertionError"
  by (cases x) (simp_all add: clone_var_in_block_def)

lemma save_op_name: "name u = name v \<Longrightarrow> save_op d u = save_op d v"
  by (simp add: save_op_def)

lemma load_op_name: "name u = name v \<Longrightarrow> load_op d u = load_op d v"
  by (simp add: load_op_def)

lemma save_each_ok: "fst (save_each d (map PyVar vs) b) = Inr ()"
proof (induction vs arbitrary: b)
  case Nil
  show ?case by simp
next
  case (Cons v vs)
  obtain b' nv where "clone_var_in_block b (PyVar v) = Inr (b', nv)"
    using clone_PyVar_ex by blast
  then show ?case using Cons.IH by simp
qed

lemma save_each_ops: "ops (snd (save_each d (map PyVar vs) b)) = ops b @ map (save_op d) vs"
proof (induction vs arbitrary: b)
  case Nil
  show ?case by simp
next
  case (Cons v vs)
  obtain b' nv where c: "clone_var_in_block b (PyVar v) = Inr (b', nv)"
    and n: "name nv = name v" and o: "ops b' = ops b"
    using clone_PyVar_ex by blast
  have "save_op d nv = save_op d v" using n by (rule save_op_name)
  then show ?case using c o Cons.IH [of "append_op b' (save_op d v)"]
    by (simp add: append_op_def)
qed

lemma load_each_ok: "fst (load_each d (map PyVar vs) b) = Inr ()"
proof (induction vs arbitrary: b)
  case Nil
  show ?case by simp
next
  case (Cons v vs)
  obtain b' nv where "clone_var_in_block b (PyVar v) = Inr (b', nv)"
    using clone_PyVar_ex by blast
  then show ?case using Cons.IH by simp
qed

lemma load_each_ops: "ops (snd (load_each d (map PyVar vs) b)) = ops b @ map (load_op d) vs"
proof (induction vs arbitrary: b)
  case Nil
  show ?case by simp
next
  case (Cons v vs)
  obtain b' nv where c: "clone_var_in_block b (PyVar v) = Inr (b', nv)"
    and n: "name nv = name v" and o: "ops b' = ops b"
    using clone_PyVar_ex by blast
  have "load_op d nv = load_op d v" using n by (rule load_op_name)
  then show ?case using c o Cons.IH [of "append_op b' (load_op d v)"]
    by (simp add: append_op_def)
qed

lemma save_vars_Some:
  "save_vars ex d mp (Some vs) pr w =
     (case save_each d vs (global_block Program) of
        (Inl e, b) \<Rightarrow> (Inl e, built w b)
      | (Inr u, b) \<Rightarrow> (Inr (), ran ex w b))"
  by (simp add: new_Program_def set_global_block_def executor_run_def Let_def built_def ran_def
           split: prod.splits sum.splits)

lemma load_vars_Some:
  "load_vars ex d mp (Some vs) pr w =
     (case load_each d vs (global_block Program) of
        (Inl e, b) \<Rightarrow> (Inl e, built w b)
      | (Inr u, b) \<Rightarrow> (Inr (), ran ex w b))"
  by (simp add: new_Program_def set_global_block_def executor_run_def Let_def built_def ran_def
           split: prod.splits sum.splits)

lemma save_vars_list:
  "save_vars ex d mp (Some (map PyVar vs)) pr w =
     (Inr (), ran ex w (snd (save_each d (map PyVar vs) (global_block Program))))"
proof -
  obtain r b where e: "save_each d (map PyVar vs) (global_block Program) = (r, b)"
    by (cases "save_each d (map PyVar vs) (global_block Program)")
  then have "r = Inr ()" using save_each_ok [of d vs "global_block Program"] by simp
  then show ?thesis using e by (simp add: save_vars_Some del: save_vars.simps)
qed

lemma load_vars_list:
  "load_vars ex d mp (Some (map PyVar vs)) pr w =
     (Inr (), ran ex w (snd (load_each d (map PyVar vs) (global_block Program))))"
proof -
  obtain r b where e: "load_each d (map PyVar vs) (global_block Program) = (r, b)"
    by (cases "load_each d (map PyVar vs) (global_block Program)")
  then have "r = Inr ()" using load_each_ok [of d vs "global_block Program"] by simp
  then show ?thesis using e by (simp add: load_vars_Some del: load_vars.simps)
qed

lemma saved_ops:
  "ops (snd (save_each d (map PyVar vs) (global_block Program))) = map (save_op d) vs"
  using save_each_ops [of d vs "global_block Program"] by (simp add: Program_def)

lemma loaded_ops:
  "ops (snd (load_each d (map PyVar vs) (global_block Program))) = map (load_op d) vs"
  using load_each_ops [of d vs "global_block Program"] by (simp add: Program_def)

lemma save_op_fun:
  "save_op d =
     (\<lambda>v. \<lparr>op_type = ''save'', inputs = [(''X'', [name v])], outputs = [],
           attrs = [(''file_path'', AttrStr (os_path_join d (name v)))]\<rparr>)"
  by (simp add: fun_eq_iff save_op_def)

lemma load_op_fun:
  "load_op d =
     (\<lambda>v. \<lparr>op_type = ''load'', inputs = [], outputs = [(''Out'', [name v])],
           attrs = [(''file_path'', AttrStr (os_path_join d (name v)))]\<rparr>)"
  by (simp add: fun_eq_iff load_op_def)

lemma save_vars_Program:
  "save_vars ex d (PyProgram a) None pr w =
     save_vars ex d PyNone (Some (map PyVar (filter_py pr (list_vars (programs w a))))) None w"
  by simp

lemma load_vars_Program:
  "load_vars ex d (PyProgram a) None pr w =
     load_vars ex d PyNone (Some (map PyVar (filter_py pr (list_vars (programs w a))))) None w"
  by simp

lemma save_vars_None:
  "save_vars ex d PyNone None pr w = save_vars ex d (PyProgram (default_main_program w)) None pr w"
  by simp

lemma load_vars_None:
  "load_vars ex d PyNone None pr w = load_vars ex d (PyProgram (default_main_program w)) None pr w"
  by simp

lemma save_vars_TypeError:
  "mp \<noteq> PyNone \<Longrightarrow> \<not> isinstance_Program mp \<Longrightarrow>
   save_vars ex d mp None pr w = (Inl (TypeError ''program should be as Program type or None''), w)"
  by simp

lemma load_vars_TypeError:
  "mp \<noteq> PyNone \<Longrightarrow> \<not> isinstance_Program mp \<Longrightarrow>
   load_vars ex d mp None pr w = (Inl (TypeError ''program's type should be Program''), w)"
  by simp

lemma ran_simps:
  "programs (ran ex w b) = (programs w)(next_program w := Program\<lparr>global_block := b\<rparr>)"
  "next_program (ran ex w b) = Suc (next_program w)"
  "default_main (ran ex w b) = default_main w"
  "run_log (ran ex w b) = run_log w @ [next_program w]"
  "fs (ran ex w b) = fold (run_op ex) (ops b) (fs w)"
  by (simp_all add: ran_def built_def)

lemma built_simps:
  "programs (built w b) = (programs w)(next_program w := Program\<lparr>global_block := b\<rparr>)"
  "next_program (built w b) = Suc (next_program w)"
  "default_main (built w b) = default_main w"
  "run_log (built w b) = run_log w"
  "fs (built w b) = fs w"
  by (simp_all add: built_def)

lemma save_each_types:
  "list_all (\<lambda>opr. op_type opr = ''save'') (ops b) \<Longrightarrow>
   list_all (\<lambda>opr. op_type opr = ''save'') (ops (snd (save_each d vs b)))"
proof (induction vs arbitrary: b)
  case Nil
  then show ?case by simp
next
  case (Cons x xs)
  show ?case
  proof (cases "clone_var_in_block b x")
    case (Inl e)
    then show ?thesis using Cons.prems by simp
  next
    case (Inr bv)
    obtain b' nv where bv: "bv = (b', nv)" by (cases bv)
    have "ops b' = ops b"
      using Inr bv by (cases x) (auto simp: clone_var_in_block_def create_var_def Let_def)
    then have "list_all (\<lambda>opr. op_type opr = ''save'') (ops (append_op b' (save_op d nv)))"
      using Cons.prems by (simp add: append_op_def save_op_def)
    then show ?thesis using Inr bv Cons.IH by simp
  qed
qed

lemma load_each_types:
  "list_all (\<lambda>opr. op_type opr = ''load'') (ops b) \<Longrightarrow>
   list_all (\<lambda>opr. op_type opr = ''load'') (ops (snd (load_each d vs b)))"
proof (induction vs arbitrary: b)
  case Nil
  then show ?case by simp
next
  case (Cons x xs)
  show ?case
  proof (cases "clone_var_in_block b x")
    case (Inl e)
    then show ?thesis using Cons.prems by simp
  next
    case (Inr bv)
    obtain b' nv where bv: "bv = (b', nv)" by (cases bv)
    have "ops b' = ops b"
      using Inr bv by (cases x) (auto simp: clone_var_in_block_def create_var_def Let_def)
    then have "list_all (\<lambda>opr. op_type opr = ''load'') (ops (append_op b' (load_op d nv)))"
      using Cons.prems by (simp add: append_op_def load_op_def)
    then show ?thesis using Inr bv Cons.IH Cons.prems by simp
  qed
qed

lemma save_vars_Some_fresh: "fresh_only ''save'' w (save_vars ex d mp (Some vs) pr w)"
proof -
  obtain r b where e: "save_each d vs (global_block Program) = (r, b)"
    by (cases "save_each d vs (global_block Program)")
  have t: "list_all (\<lambda>opr. op_type opr = ''save'') (ops b)"
    using save_each_types [of "global_block Program" d vs] e by (simp add: Program_def)
  show ?thesis
  proof (cases r)
    case (Inl x)
    then show ?thesis using e
      by (simp add: save_vars_Some fresh_only_def built_simps del: save_vars.simps)
  next
    case (Inr u)
    then show ?thesis using e t
      by (simp add: save_vars_Some fresh_only_def ran_simps Program_def del: save_vars.simps)
  qed
qed

lemma load_vars_Some_fresh: "fresh_only ''load'' w (load_vars ex d mp (Some vs) pr w)"
proof -
  obtain r b where e: "load_each d vs (global_block Program) = (r, b)"
    by (cases "load_each d vs (global_block Program)")
  have t: "list_all (\<lambda>opr. op_type opr = ''load'') (ops b)"
    using load_each_types [of "global_block Program" d vs] e by (simp add: Program_def)
  show ?thesis
  proof (cases r)
    case (Inl x)
    then show ?thesis using e
      by (simp add: load_vars_Some fresh_only_def built_simps del: load_vars.simps)
  next
    case (Inr u)
    then show ?thesis using e t
      by (simp add: load_vars_Some fresh_only_def ran_simps Program_def del: load_vars.simps)
  qed
qed

lemma fresh_only_error: "fresh_only t w (Inl e, w)"
  by (simp add: fresh_only_def)

lemma save_vars_fresh: "fresh_only ''save'' w (save_vars ex d mp vs pr w)"
proof (cases vs)
  case None
  show ?thesis
  proof (cases "mp \<noteq> PyNone \<and> \<not> isinstance_Program mp")
    case True
    then show ?thesis using None by (simp add: fresh_only_error)
  next
    case False
    then have "save_vars ex d mp None pr w =
      save_vars ex d PyNone (Some (map PyVar (filter_py pr (list_vars (programs w
        (the_Program (if mp = PyNone then PyProgram (default_main_program w) else mp))))))) None w"
      by (auto simp: Let_def simp del: save_vars.simps(2))
    then show ?thesis using None save_vars_Some_fresh by simp
  qed
next
  case (Some xs)
  then show ?thesis using save_vars_Some_fresh by simp
qed

lemma load_vars_fresh: "fresh_only ''load'' w (load_vars ex d mp vs pr w)"
proof (cases vs)
  case None
  show ?thesis
  proof (cases "mp \<noteq> PyNone \<and> \<not> isinstance_Program mp")
    case True
    then show ?thesis using None by (simp add: fresh_only_error)
  next
    case False
    then have "load_vars ex d mp None pr w =
      load_vars ex d PyNone (Some (map PyVar (filter_py pr (list_vars (programs w
        (the_Program (if mp = PyNone then PyProgram (default_main_program w) else mp))))))) None w"
      by (auto simp: Let_def simp del: load_vars.simps(2))
    then show ?thesis using None load_vars_Some_fresh by simp
  qed
next
  case (Some xs)
  then show ?thesis using load_vars_Some_fresh by simp
qed

section \<open>The claims\<close>

text \<open>
  C3. With \<^verbatim>\<open>vars=None\<close>, a \<^verbatim>\<open>Program\<close> and a predicate \<open>p\<close>, \<^verbatim>\<open>save_vars\<close> and
  \<^verbatim>\<open>load_vars\<close> complete, and the program they hand to the executor holds exactly the
  \<^verbatim>\<open>save\<close> (\<^verbatim>\<open>load\<close>) operators of the variables of \<^verbatim>\<open>list_vars()\<close> that satisfy
  \<open>p\<close>, one each, in the order of the list, and none for a variable that fails \<open>p\<close>.
  The \<^verbatim>\<open>save\<close> operator of a variable has the variable as its input \<^verbatim>\<open>X\<close>, the
  \<^verbatim>\<open>load\<close> operator has it as its output \<^verbatim>\<open>Out\<close>, and both have the attribute
  \<^verbatim>\<open>file_path\<close> equal to \<^verbatim>\<open>os.path.join(dirname, v.name)\<close>.
  \<^verbatim>\<open>save_params\<close> and \<^verbatim>\<open>load_params\<close> are the instances for \<^verbatim>\<open>is_parameter\<close>,
  \<^verbatim>\<open>save_persistables\<close> and \<^verbatim>\<open>load_persistables\<close> those for \<^verbatim>\<open>is_persistable\<close>.
\<close>

theorem select_by_predicate:
  "fst (save_vars ex d (PyProgram a) None (Some p) w) = Inr () \<and>
   run_log (snd (save_vars ex d (PyProgram a) None (Some p) w)) = run_log w @ [next_program w] \<and>
   ops (global_block (programs (snd (save_vars ex d (PyProgram a) None (Some p) w)) (next_program w)))
     = map (\<lambda>v. \<lparr>op_type = ''save'', inputs = [(''X'', [name v])], outputs = [],
                  attrs = [(''file_path'', AttrStr (os_path_join d (name v)))]\<rparr>)
         (filter p (list_vars (programs w a))) \<and>
   fst (load_vars ex d (PyProgram a) None (Some p) w) = Inr () \<and>
   run_log (snd (load_vars ex d (PyProgram a) None (Some p) w)) = run_log w @ [next_program w] \<and>
   ops (global_block (programs (snd (load_vars ex d (PyProgram a) None (Some p) w)) (next_program w)))
     = map (\<lambda>v. \<lparr>op_type = ''load'', inputs = [], outputs = [(''Out'', [name v])],
                  attrs = [(''file_path'', AttrStr (os_path_join d (name v)))]\<rparr>)
         (filter p (list_vars (programs w a))) \<and>
   save_params ex d mp w = save_vars ex d mp None (Some is_parameter) w \<and>
   load_params ex d mp w = load_vars ex d mp None (Some is_parameter) w \<and>
   save_persistables ex d mp w = save_vars ex d mp None (Some is_persistable) w \<and>
   load_persistables ex d mp w = load_vars ex d mp None (Some is_persistable) w \<and>
   is_parameter v = is_Parameter v \<and> is_persistable v = persistable v"
proof -
  let ?vs = "filter p (list_vars (programs w a))"
  have s: "save_vars ex d (PyProgram a) None (Some p) w =
      (Inr (), ran ex w (snd (save_each d (map PyVar ?vs) (global_block Program))))"
    by (simp only: save_vars_Program save_vars_list filter_py_def option.case)
  have l: "load_vars ex d (PyProgram a) None (Some p) w =
      (Inr (), ran ex w (snd (load_each d (map PyVar ?vs) (global_block Program))))"
    by (simp only: load_vars_Program load_vars_list filter_py_def option.case)
  have e: "is_parameter v = is_Parameter v" "is_persistable v = persistable v"
    by (simp_all add: is_parameter_def is_persistable_def)
  show ?thesis
    by (simp add: s l e ran_simps saved_ops loaded_ops save_op_fun load_op_fun
          save_params_def load_params_def save_persistables_def load_persistables_def
          del: save_vars.simps load_vars.simps)
qed

theorem select_by_predicate_witness:
  "ops (global_block (programs (snd (save_vars executor0 ''model'' (PyProgram 0) None
      (Some is_persistable) world0)) 2))
     = [\<lparr>op_type = ''save'', inputs = [(''X'', [''w''])], outputs = [],
         attrs = [(''file_path'', AttrStr ''model/w'')]\<rparr>,
        \<lparr>op_type = ''save'', inputs = [(''X'', [''mean''])], outputs = [],
         attrs = [(''file_path'', AttrStr ''model/mean'')]\<rparr>] \<and>
   ops (global_block (programs (snd (load_vars executor0 ''model'' (PyProgram 0) None
      (Some is_persistable) world0)) 2))
     = [\<lparr>op_type = ''load'', inputs = [], outputs = [(''Out'', [''w''])],
         attrs = [(''file_path'', AttrStr ''model/w'')]\<rparr>,
        \<lparr>op_type = ''load'', inputs = [], outputs = [(''Out'', [''mean''])],
         attrs = [(''file_path'', AttrStr ''model/mean'')]\<rparr>]"
  using select_by_predicate [of executor0 "''model''" 0 is_persistable world0]
  by (simp add: world0_def net_def list_vars_def var_x_def var_w_def var_mean_def var_y_def
        is_persistable_def os_path_join_def)

text \<open>
  C4. For a list \<open>vs\<close> of variables, \<^verbatim>\<open>save_vars(executor, dirname, vars=vs)\<close> builds
  a save program with exactly \<open>length vs\<close> operators; the \<open>i\<close>-th is a \<^verbatim>\<open>save\<close>
  operator on the \<open>i\<close>-th variable, with the attribute \<^verbatim>\<open>file_path\<close> equal to
  \<^verbatim>\<open>os.path.join(dirname, v.name)\<close>. The empty list is covered as well.
\<close>

theorem save_vars_one_op_per_variable:
  "fst (save_vars ex d mp (Some (map PyVar vs)) pr w) = Inr () \<and>
   run_log (snd (save_vars ex d mp (Some (map PyVar vs)) pr w)) = run_log w @ [next_program w] \<and>
   length (ops (global_block
      (programs (snd (save_vars ex d mp (Some (map PyVar vs)) pr w)) (next_program w))))
     = length vs \<and>
   (\<forall>i < length vs.
      op_type (ops (global_block
        (programs (snd (save_vars ex d mp (Some (map PyVar vs)) pr w)) (next_program w))) ! i)
        = ''save'' \<and>
      inputs (ops (global_block
        (programs (snd (save_vars ex d mp (Some (map PyVar vs)) pr w)) (next_program w))) ! i)
        = [(''X'', [name (vs ! i)])] \<and>
      map_of (attrs (ops (global_block
        (programs (snd (save_vars ex d mp (Some (map PyVar vs)) pr w)) (next_program w))) ! i))
        ''file_path'' = Some (AttrStr (os_path_join d (name (vs ! i)))))"
  by (simp add: save_vars_list ran_simps saved_ops save_op_def del: save_vars.simps)

theorem save_vars_one_op_per_variable_witness:
  "length (ops (global_block
      (programs (snd (save_vars executor0 ''model'' PyNone (Some [PyVar var_w, PyVar var_mean])
         None world0)) 2))) = 2 \<and>
   map_of (attrs (ops (global_block
      (programs (snd (save_vars executor0 ''model'' PyNone (Some [PyVar var_w, PyVar var_mean])
         None world0)) 2)) ! 1)) ''file_path'' = Some (AttrStr ''model/mean'')"
  using save_vars_one_op_per_variable [of executor0 "''model''" PyNone "[var_w, var_mean]" None world0]
  by (simp add: world0_def var_w_def var_mean_def os_path_join_def)

text \<open>
  C5. With \<^verbatim>\<open>vars=None\<close> and a \<^verbatim>\<open>main_program\<close> that is neither \<^verbatim>\<open>None\<close> nor a
  \<^verbatim>\<open>Program\<close>, \<^verbatim>\<open>save_vars\<close> and \<^verbatim>\<open>load_vars\<close> raise \<^verbatim>\<open>TypeError\<close> in the world
  they were called in: no program was created, no operator emitted, and the executor did
  not run. With \<^verbatim>\<open>main_program=None\<close> the call is the call on
  \<^verbatim>\<open>default_main_program()\<close>, and it completes without an exception.
\<close>

theorem program_type_check:
  "(mp \<noteq> PyNone \<and> \<not> isinstance_Program mp \<longrightarrow>
      save_vars ex d mp None pr w
        = (Inl (TypeError ''program should be as Program type or None''), w) \<and>
      load_vars ex d mp None pr w = (Inl (TypeError ''program's type should be Program''), w)) \<and>
   save_vars ex d PyNone None pr w
     = save_vars ex d (PyProgram (default_main_program w)) None pr w \<and>
   load_vars ex d PyNone None pr w
     = load_vars ex d (PyProgram (default_main_program w)) None pr w \<and>
   fst (save_vars ex d PyNone None pr w) = Inr () \<and>
   fst (load_vars ex d PyNone None pr w) = Inr ()"
proof -
  have "fst (save_vars ex d (PyProgram (default_main_program w)) None pr w) = Inr ()"
    by (simp only: save_vars_Program save_vars_list fst_conv)
  moreover have "fst (load_vars ex d (PyProgram (default_main_program w)) None pr w) = Inr ()"
    by (simp only: load_vars_Program load_vars_list fst_conv)
  ultimately show ?thesis
    using save_vars_TypeError [of mp ex d pr w] load_vars_TypeError [of mp ex d pr w]
    by (simp only: save_vars_None load_vars_None) blast
qed

theorem program_type_check_witness:
  "save_vars executor0 ''model'' (PyStr ''net'') None None world0
     = (Inl (TypeError ''program should be as Program type or None''), world0) \<and>
   load_vars executor0 ''model'' (PyStr ''net'') None None world0
     = (Inl (TypeError ''program's type should be Program''), world0)"
  using program_type_check [of "PyStr ''net''" executor0 "''model''" None world0]
  by simp

text \<open>
  C7. Whatever the arguments, \<^verbatim>\<open>save_vars\<close> and \<^verbatim>\<open>load_vars\<close> change the heap at
  the address of the freshly created program only: every program allocated before the
  call, the caller's \<^verbatim>\<open>main_program\<close> among them, is as it was. A call that completes
  has run the executor exactly once, on the fresh program, which holds \<^verbatim>\<open>save\<close>
  (\<^verbatim>\<open>load\<close>) operators only; a call that raises has not run the executor. Variables
  are values in this model, so the variables passed in cannot change.
\<close>

theorem operators_go_to_fresh_program:
  "(\<forall>a. a \<noteq> next_program w \<longrightarrow>
      programs (snd (save_vars ex d mp vs pr w)) a = programs w a \<and>
      programs (snd (load_vars ex d mp vs pr w)) a = programs w a) \<and>
   (fst (save_vars ex d mp vs pr w) = Inr () \<longrightarrow>
      run_log (snd (save_vars ex d mp vs pr w)) = run_log w @ [next_program w] \<and>
      next_program (snd (save_vars ex d mp vs pr w)) = Suc (next_program w) \<and>
      list_all (\<lambda>opr. op_type opr = ''save'')
        (ops (global_block (programs (snd (save_vars ex d mp vs pr w)) (next_program w))))) \<and>
   (fst (save_vars ex d mp vs pr w) \<noteq> Inr () \<longrightarrow>
      run_log (snd (save_vars ex d mp vs pr w)) = run_log w) \<and>
   (fst (load_vars ex d mp vs pr w) = Inr () \<longrightarrow>
      run_log (snd (load_vars ex d mp vs pr w)) = run_log w @ [next_program w] \<and>
      next_program (snd (load_vars ex d mp vs pr w)) = Suc (next_program w) \<and>
      list_all (\<lambda>opr. op_type opr = ''load'')
        (ops (global_block (programs (snd (load_vars ex d mp vs pr w)) (next_program w))))) \<and>
   (fst (load_vars ex d mp vs pr w) \<noteq> Inr () \<longrightarrow>
      run_log (snd (load_vars ex d mp vs pr w)) = run_log w)"
  using save_vars_fresh [of w ex d mp vs pr] load_vars_fresh [of w ex d mp vs pr]
  unfolding fresh_only_def by (simp split: if_splits)

theorem operators_go_to_fresh_program_witness:
  "0 \<noteq> next_program world0 \<and>
   programs (snd (save_vars executor0 ''model'' (PyProgram 0) None (Some is_persistable) world0)) 0
     = net \<and>
   fst (load_vars executor0 ''model'' (PyProgram 0) None (Some is_persistable) world0) = Inr () \<and>
   run_log (snd (load_vars executor0 ''model'' (PyProgram 0) None (Some is_persistable) world0))
     = [2]"
  using operators_go_to_fresh_program
    [of world0 executor0 "''model''" "PyProgram 0" None "Some is_persistable"]
    save_vars_list [of executor0 "''model''" PyNone _ None world0]
    load_vars_list [of executor0 "''model''" PyNone _ None world0]
  by (simp add: world0_def del: save_vars.simps(2) load_vars.simps(2))

subsection \<open>Sequencing and the argument checks\<close>

lemma seq_Inl: "seq (Inl e, w) k = (Inl e, w)"
  by (simp add: seq_def)

lemma seq_Inr: "seq (Inr x, w) k = k x w"
  by (simp add: seq_def)












subsection \<open>Loading what exists\<close>

lemma run_load_op: "run_op ex (load_op d v) f = f"
  by (simp add: run_op_def load_op_def)

lemma run_load_ops: "fold (run_op ex) (map (load_op d) vs) f = f"
  by (induction vs) (simp_all add: run_load_op)

lemma load_persistables_if_exist_Program:
  assumes "walk_filenames (fs w) d = Inr filenames"
  shows "load_persistables_if_exist ex d (PyProgram a) w =
     (Inr (), ran ex w (snd (load_each d
        (map PyVar (filter (\<lambda>v. persistable v \<and> name v \<in> set filenames)
           (list_vars (programs w a))))
        (global_block Program))))"
proof -
  have "(\<lambda>var. if \<not> is_persistable var then False else name var \<in> set filenames)
      = (\<lambda>v. persistable v \<and> name v \<in> set filenames)"
    by (simp add: fun_eq_iff is_persistable_def)
  then show ?thesis
    using assms
    by (simp only: load_persistables_if_exist_def sum.case load_vars_Program load_vars_list
          filter_py_def option.case)
qed

lemma walk_filenames_isdir:
  "os_path_isdir f d \<Longrightarrow>
   walk_filenames f d
     = Inr (map (last \<circ> fst) (filter (\<lambda>(p, c). p \<noteq> [] \<and> butlast p = components d) (files f)))"
  by (simp add: walk_filenames_def)

lemma walk_filenames_nodir: "\<not> os_path_isdir f d \<Longrightarrow> walk_filenames f d = Inl StopIteration"
  by (simp add: walk_filenames_def)

lemma parse_program_Some:
  "parse_from_string fw s = Some p \<Longrightarrow>
   parse_program fw s w = (Inr (next_program w), built w (global_block p)\<lparr>programs :=
      (programs w)(next_program w := p)\<rparr>)"
  by (simp add: parse_program_def new_Program_def built_def)

text \<open>The errors that the later steps of load_inference_model can raise.\<close>

lemma feed_targets_loop_error:
  "feed_targets_loop os acc = Inl e \<Longrightarrow> e \<noteq> IOError \<and> e \<noteq> no_directory"
  by (induction os arbitrary: acc)
     (auto simp: first_arg_def no_directory_def split: if_splits sum.splits option.splits list.splits)

lemma fetch_targets_loop_error:
  "fetch_targets_loop os acc = Inl e \<Longrightarrow> e \<noteq> IOError \<and> e \<noteq> no_directory"
  by (induction os arbitrary: acc)
     (auto simp: first_arg_def no_directory_def split: if_splits sum.splits option.splits list.splits)

lemma block_vars_error:
  "block_vars b ns = Inl e \<Longrightarrow> e \<noteq> IOError \<and> e \<noteq> no_directory"
  by (induction ns arbitrary: e)
     (auto simp: block_var_def no_directory_def split: sum.splits option.splits)

lemma load_inference_model_found:
  assumes d: "os_path_isdir (fs w) d"
    and r: "read_file (fs w) (d @ ''/__model__'') = Some s"
    and p: "parse_from_string fw s = Some p"
    and f: "walk_filenames (fs w) d = Inr filenames"
  shows "snd (load_inference_model fw d ex w) =
           ran ex (built w (global_block p)\<lparr>programs := (programs w)(next_program w := p)\<rparr>)
             (snd (load_each d
                (map PyVar (filter (\<lambda>v. persistable v \<and> name v \<in> set filenames) (list_vars p)))
                (global_block Program)))"
    and "fst (load_inference_model fw d ex w) \<noteq> Inl IOError"
    and "fst (load_inference_model fw d ex w) \<noteq> Inl no_directory"
proof -
  let ?w1 = "built w (global_block p)\<lparr>programs := (programs w)(next_program w := p)\<rparr>"
  let ?b = "snd (load_each d
                (map PyVar (filter (\<lambda>v. persistable v \<and> name v \<in> set filenames) (list_vars p)))
                (global_block Program))"
  have f1: "walk_filenames (fs ?w1) d = Inr filenames"
    using f by (simp add: built_simps)
  have l: "load_persistables_if_exist ex d (PyProgram (next_program w)) ?w1 = (Inr (), ran ex ?w1 ?b)"
    using load_persistables_if_exist_Program [OF f1, of ex "next_program w"] by simp
  have m: "load_inference_model fw d ex w =
     seq (lift (get_feed_targets_names (programs (ran ex ?w1 ?b) (next_program w))) (ran ex ?w1 ?b))
       (\<lambda>feed_target_names u.
     seq (lift (get_fetch_targets_names (programs u (next_program w))) u) (\<lambda>fetch_target_names u.
     seq (lift (block_vars (global_block (programs u (next_program w))) fetch_target_names) u)
       (\<lambda>fetch_targets u.
     (Inr (next_program w, feed_target_names, fetch_targets), u))))"
    using d r p l by (simp add: load_inference_model_def parse_program_Some seq_Inr)
  show "snd (load_inference_model fw d ex w) = ran ex ?w1 ?b"
    unfolding m by (simp add: seq_def lift_def split: sum.splits)
  show "fst (load_inference_model fw d ex w) \<noteq> Inl IOError"
    unfolding m
    using feed_targets_loop_error fetch_targets_loop_error block_vars_error
    by (auto simp: seq_def lift_def get_feed_targets_names_def get_fetch_targets_names_def
          split: sum.splits)
  show "fst (load_inference_model fw d ex w) \<noteq> Inl no_directory"
    unfolding m
    using feed_targets_loop_error fetch_targets_loop_error block_vars_error
    by (auto simp: seq_def lift_def get_feed_targets_names_def get_fetch_targets_names_def
          split: sum.splits)
qed

lemma load_inference_model_parse_error:
  "os_path_isdir (fs w) d \<Longrightarrow> read_file (fs w) (d @ ''/__model__'') = Some s \<Longrightarrow>
   parse_from_string fw s = None \<Longrightarrow>
   load_inference_model fw d ex w = (Inl (FrameworkError ''parse_from_string''), w)"
  by (simp add: load_inference_model_def parse_program_def seq_Inl)

text \<open>
  C2. \<^verbatim>\<open>load_inference_model\<close> raises \<^verbatim>\<open>ValueError\<close> when \<^verbatim>\<open>dirname\<close> is not an existing
  directory. When the directory exists and the file \<^verbatim>\<open>__model__\<close> does not, opening the
  file raises (\<^verbatim>\<open>IOError\<close>) before anything is read, parsed or run: the world is the
  world of the call. When both exist, neither of the two errors is raised.
\<close>

theorem existence_checks:
  "no_directory = ValueError (''There is no directory named '%s'' @ [CHR 0x27]) \<and>
   (\<not> os_path_isdir (fs w) d \<longrightarrow> load_inference_model fw d ex w = (Inl no_directory, w)) \<and>
   (os_path_isdir (fs w) d \<and> read_file (fs w) (d @ ''/__model__'') = None \<longrightarrow>
      load_inference_model fw d ex w = (Inl IOError, w)) \<and>
   (os_path_isdir (fs w) d \<and> read_file (fs w) (d @ ''/__model__'') \<noteq> None \<longrightarrow>
      fst (load_inference_model fw d ex w) \<noteq> Inl no_directory \<and>
      fst (load_inference_model fw d ex w) \<noteq> Inl IOError)"
proof -
  have a: "\<not> os_path_isdir (fs w) d \<Longrightarrow> load_inference_model fw d ex w = (Inl no_directory, w)"
    by (simp add: load_inference_model_def)
  have b: "os_path_isdir (fs w) d \<Longrightarrow> read_file (fs w) (d @ ''/__model__'') = None \<Longrightarrow>
      load_inference_model fw d ex w = (Inl IOError, w)"
    by (simp add: load_inference_model_def)
  have c: "fst (load_inference_model fw d ex w) \<noteq> Inl no_directory \<and>
      fst (load_inference_model fw d ex w) \<noteq> Inl IOError"
    if d: "os_path_isdir (fs w) d" and r: "read_file (fs w) (d @ ''/__model__'') = Some s" for s
  proof (cases "parse_from_string fw s")
    case None
    then show ?thesis
      using load_inference_model_parse_error [OF d r] by (simp add: no_directory_def)
  next
    case (Some p)
    then show ?thesis
      using load_inference_model_found(2,3) [OF d r Some walk_filenames_isdir [OF d]] by simp
  qed
  show ?thesis using a b c by (auto simp: no_directory_def)
qed

theorem existence_checks_witness:
  "load_inference_model framework0 ''nowhere'' executor0 world1 = (Inl no_directory, world1) \<and>
   load_inference_model framework0 ''.'' executor0 world1 = (Inl IOError, world1) \<and>
   os_path_isdir (fs world1) ''model'' \<and>
   read_file (fs world1) (''model'' @ ''/__model__'') \<noteq> None \<and>
   fst (load_inference_model framework0 ''model'' executor0 world1) \<noteq> Inl no_directory \<and>
   fst (load_inference_model framework0 ''model'' executor0 world1) \<noteq> Inl IOError"
proof -
  have a: "\<not> os_path_isdir (fs world1) ''nowhere''"
    by (simp add: os_path_isdir_def world1_def disk_def components_def)
  have b: "os_path_isdir (fs world1) ''.''" "read_file (fs world1) (''.'' @ ''/__model__'') = None"
    by (simp_all add: os_path_isdir_def read_file_def world1_def disk_def components_def)
  have c: "os_path_isdir (fs world1) ''model''"
    "read_file (fs world1) (''model'' @ ''/__model__'') \<noteq> None"
    by (simp_all add: os_path_isdir_def read_file_def world1_def disk_def components_def)
  show ?thesis
    using a b c existence_checks [of world1 "''nowhere''" framework0 executor0]
      existence_checks [of world1 "''.''" framework0 executor0]
      existence_checks [of world1 "''model''" framework0 executor0]
    by simp
qed

text \<open>
  C10. For a directory \<^verbatim>\<open>dirname\<close>, \<^verbatim>\<open>load_persistables_if_exist\<close> completes, and the
  program it hands to the executor holds a \<^verbatim>\<open>load\<close> operator for exactly the variables
  of the program that are persistable and whose name is the name of a file directly in
  \<^verbatim>\<open>dirname\<close>, in the order of \<^verbatim>\<open>list_vars()\<close>; a persistable variable without a
  file gets no operator and causes no error. The \<^verbatim>\<open>load\<close> operator of a variable has
  the variable as its output \<^verbatim>\<open>Out\<close> and the attribute \<^verbatim>\<open>file_path\<close> equal to
  \<^verbatim>\<open>os.path.join(dirname, v.name)\<close>. \<^verbatim>\<open>load_inference_model\<close> does the same for
  the program it has parsed from \<^verbatim>\<open>__model__\<close>.
\<close>

theorem load_what_exists:
  "os_path_isdir (fs w) d \<longrightarrow>
   (let filenames =
          map (last \<circ> fst) (filter (\<lambda>(p, c). p \<noteq> [] \<and> butlast p = components d) (files (fs w)));
        wanted = (\<lambda>q. map
          (\<lambda>v. \<lparr>op_type = ''load'', inputs = [], outputs = [(''Out'', [name v])],
                attrs = [(''file_path'', AttrStr (os_path_join d (name v)))]\<rparr>)
          (filter (\<lambda>v. persistable v \<and> name v \<in> set filenames) (list_vars q)))
    in walk_filenames (fs w) d = Inr filenames \<and>
       fst (load_persistables_if_exist ex d (PyProgram a) w) = Inr () \<and>
       run_log (snd (load_persistables_if_exist ex d (PyProgram a) w))
         = run_log w @ [next_program w] \<and>
       ops (global_block
         (programs (snd (load_persistables_if_exist ex d (PyProgram a) w)) (next_program w)))
         = wanted (programs w a) \<and>
       load_persistables_if_exist ex d PyNone w
         = load_persistables_if_exist ex d (PyProgram (default_main_program w)) w \<and>
       (\<forall>s p. read_file (fs w) (d @ ''/__model__'') = Some s \<and> parse_from_string fw s = Some p \<longrightarrow>
          run_log (snd (load_inference_model fw d ex w)) = run_log w @ [Suc (next_program w)] \<and>
          ops (global_block
            (programs (snd (load_inference_model fw d ex w)) (Suc (next_program w))))
            = wanted p))"
proof
  assume d: "os_path_isdir (fs w) d"
  define filenames where "filenames =
    map (last \<circ> fst) (filter (\<lambda>(p, c). p \<noteq> [] \<and> butlast p = components d) (files (fs w)))"
  have f: "walk_filenames (fs w) d = Inr filenames"
    using walk_filenames_isdir [OF d] by (simp add: filenames_def)
  note l = load_persistables_if_exist_Program [OF f]
  have n: "load_persistables_if_exist ex d PyNone w
         = load_persistables_if_exist ex d (PyProgram (default_main_program w)) w"
    by (simp only: load_persistables_if_exist_def load_vars_None)
  have m: "run_log (snd (load_inference_model fw d ex w)) = run_log w @ [Suc (next_program w)] \<and>
      ops (global_block (programs (snd (load_inference_model fw d ex w)) (Suc (next_program w))))
        = map (load_op d) (filter (\<lambda>v. persistable v \<and> name v \<in> set filenames) (list_vars p))"
    if "read_file (fs w) (d @ ''/__model__'') = Some s" "parse_from_string fw s = Some p" for s p
    using load_inference_model_found(1) [OF d that f]
    by (simp add: ran_simps built_simps loaded_ops)
  show "let filenames =
          map (last \<circ> fst) (filter (\<lambda>(p, c). p \<noteq> [] \<and> butlast p = components d) (files (fs w)));
        wanted = (\<lambda>q. map
          (\<lambda>v. \<lparr>op_type = ''load'', inputs = [], outputs = [(''Out'', [name v])],
                attrs = [(''file_path'', AttrStr (os_path_join d (name v)))]\<rparr>)
          (filter (\<lambda>v. persistable v \<and> name v \<in> set filenames) (list_vars q)))
    in walk_filenames (fs w) d = Inr filenames \<and>
       fst (load_persistables_if_exist ex d (PyProgram a) w) = Inr () \<and>
       run_log (snd (load_persistables_if_exist ex d (PyProgram a) w))
         = run_log w @ [next_program w] \<and>
       ops (global_block
         (programs (snd (load_persistables_if_exist ex d (PyProgram a) w)) (next_program w)))
         = wanted (programs w a) \<and>
       load_persistables_if_exist ex d PyNone w
         = load_persistables_if_exist ex d (PyProgram (default_main_program w)) w \<and>
       (\<forall>s p. read_file (fs w) (d @ ''/__model__'') = Some s \<and> parse_from_string fw s = Some p \<longrightarrow>
          run_log (snd (load_inference_model fw d ex w)) = run_log w @ [Suc (next_program w)] \<and>
          ops (global_block
            (programs (snd (load_inference_model fw d ex w)) (Suc (next_program w))))
            = wanted p)"
    unfolding Let_def filenames_def [symmetric]
    using f n m by (simp add: l ran_simps loaded_ops load_op_fun)
qed

theorem load_what_exists_witness:
  "os_path_isdir (fs world1) ''model'' \<and>
   walk_filenames (fs world1) ''model'' = Inr [''__model__'', ''w'', ''notes.txt''] \<and>
   fst (load_persistables_if_exist executor0 ''model'' (PyProgram 0) world1) = Inr () \<and>
   ops (global_block
     (programs (snd (load_persistables_if_exist executor0 ''model'' (PyProgram 0) world1)) 2))
     = [\<lparr>op_type = ''load'', inputs = [], outputs = [(''Out'', [''w''])],
         attrs = [(''file_path'', AttrStr ''model/w'')]\<rparr>] \<and>
   ops (global_block (programs (snd (load_inference_model framework0 ''model'' executor0 world1)) 3))
     = [\<lparr>op_type = ''load'', inputs = [], outputs = [(''Out'', [''w''])],
         attrs = [(''file_path'', AttrStr ''model/w'')]\<rparr>]"
proof -
  have d: "os_path_isdir (fs world1) ''model''"
    by (simp add: os_path_isdir_def world1_def disk_def components_def)
  have r: "read_file (fs world1) (''model'' @ ''/__model__'') = Some ''feedmulfetch''"
    by (simp add: read_file_def world1_def disk_def components_def)
  have p: "parse_from_string framework0 ''feedmulfetch'' = Some served_net"
    by (simp add: framework0_def)
  have c: "components ''model'' = [''model'']"
    by (simp add: components_def)
  show ?thesis
    using d r p load_what_exists [of world1 "''model''" executor0 0 framework0]
    by (simp add: Let_def c world1_def world0_def disk_def net_def served_net_def list_vars_def
          var_x_def var_w_def var_mean_def var_y_def feed_var0_def fetch_var0_def
          os_path_join_def)
qed

subsection \<open>Feed and fetch markers\<close>

lemma feed_op_node: "feed_op fv out i = feed_node (name fv) (name out) i"
  by (simp add: feed_op_def feed_node_def)

lemma fetch_op_node: "fetch_op fv n i = fetch_node (name fv) n i"
  by (simp add: fetch_op_def fetch_node_def)

lemma block_var_found: "n \<in> name ` set (vars b) \<Longrightarrow> \<exists>v. block_var b n = Inr v \<and> name v = n"
proof -
  assume "n \<in> name ` set (vars b)"
  then have "find (\<lambda>v. name v = n) (vars b) \<noteq> None"
    by (auto simp: find_None_iff)
  then obtain v where f: "find (\<lambda>v. name v = n) (vars b) = Some v" by blast
  then have "name v = n" by (auto simp: find_Some_iff)
  then show ?thesis using f by (simp add: block_var_def)
qed


lemma prepend_feed_each_found:
  "set ns \<subseteq> name ` set (vars b) \<Longrightarrow>
   prepend_feed_each fv i ns b =
     (Inr (), b\<lparr>ops := rev (map (\<lambda>(j, n). feed_node (name fv) n j) (enumerate i ns)) @ ops b\<rparr>)"
proof (induction ns arbitrary: i b)
  case Nil
  show ?case by simp
next
  case (Cons n ns)
  obtain v where v: "block_var b n = Inr v" "name v = n"
    using block_var_found [of n b] Cons.prems by auto
  have "set ns \<subseteq> name ` set (vars (prepend_op b (feed_op fv v i)))"
    using Cons.prems by (simp add: prepend_op_def)
  from Cons.IH [OF this, of "Suc i"] show ?case
    using v by (simp add: prepend_op_def feed_op_node)
qed


lemma append_fetch_each_ops:
  "append_fetch_each fv i ns b =
     b\<lparr>ops := ops b @ map (\<lambda>(j, n). fetch_node (name fv) n j) (enumerate i ns)\<rparr>"
  by (induction ns arbitrary: i b) (simp_all add: append_op_def fetch_op_node)

lemma store_var_names: "name ` set (store_var v vs) = insert (name v) (name ` set vs)"
  by (induction vs) auto

text \<open>The two readers, on a list of operators that is put together from two.\<close>

lemma feed_targets_loop_acc:
  "feed_targets_loop os acc =
     (case feed_targets_loop os [] of Inl e \<Rightarrow> Inl e | Inr r \<Rightarrow> Inr (r @ acc))"
proof (induction os arbitrary: acc)
  case Nil
  show ?case by simp
next
  case (Cons opr os)
  show ?case
  proof (cases "op_type opr = ''feed''")
    case False
    then show ?thesis using Cons.IH [of acc] by simp
  next
    case True
    show ?thesis
    proof (cases "first_arg (outputs opr) ''Out''")
      case (Inl e)
      then show ?thesis using True by simp
    next
      case (Inr n)
      then show ?thesis
        using True Cons.IH [of "n # acc"] Cons.IH [of "[n]"]
        by (simp split: sum.splits)
    qed
  qed
qed

lemma feed_targets_loop_append:
  "feed_targets_loop (xs @ ys) acc =
     (case feed_targets_loop xs acc of Inl e \<Rightarrow> Inl e | Inr r \<Rightarrow> feed_targets_loop ys r)"
  by (induction xs arbitrary: acc) (simp_all split: sum.splits)

lemma feed_targets_loop_nodes:
  "feed_targets_loop (map (\<lambda>(j, n). feed_node h n j) ps) acc = Inr (rev (map snd ps) @ acc)"
  by (induction ps arbitrary: acc) (auto simp: feed_node_def first_arg_def)

lemma feed_targets_loop_none:
  "list_all (\<lambda>opr. op_type opr \<noteq> ''feed'') os \<Longrightarrow> feed_targets_loop os acc = Inr acc"
  by (induction os arbitrary: acc) simp_all

lemma fetch_targets_loop_acc:
  "fetch_targets_loop os acc =
     (case fetch_targets_loop os [] of Inl e \<Rightarrow> Inl e | Inr r \<Rightarrow> Inr (acc @ r))"
proof (induction os arbitrary: acc)
  case Nil
  show ?case by simp
next
  case (Cons opr os)
  show ?case
  proof (cases "op_type opr = ''fetch''")
    case False
    then show ?thesis using Cons.IH [of acc] by simp
  next
    case True
    show ?thesis
    proof (cases "first_arg (inputs opr) ''X''")
      case (Inl e)
      then show ?thesis using True by simp
    next
      case (Inr n)
      then show ?thesis
        using True Cons.IH [of "acc @ [n]"] Cons.IH [of "[n]"]
        by (simp split: sum.splits)
    qed
  qed
qed

lemma fetch_targets_loop_append:
  "fetch_targets_loop (xs @ ys) acc =
     (case fetch_targets_loop xs acc of Inl e \<Rightarrow> Inl e | Inr r \<Rightarrow> fetch_targets_loop ys r)"
  by (induction xs arbitrary: acc) (simp_all split: sum.splits)

lemma fetch_targets_loop_nodes:
  "fetch_targets_loop (map (\<lambda>(j, n). fetch_node h n j) ps) acc = Inr (acc @ map snd ps)"
  by (induction ps arbitrary: acc) (auto simp: fetch_node_def first_arg_def)

lemma fetch_targets_loop_none:
  "list_all (\<lambda>opr. op_type opr \<noteq> ''fetch'') os \<Longrightarrow> fetch_targets_loop os acc = Inr acc"
  by (induction os arbitrary: acc) simp_all

lemma map_snd_enumerate: "map snd (enumerate i ns) = ns"
  by (induction ns arbitrary: i) simp_all

text \<open>The two writers, as one step on the world.\<close>

lemma prepend_feed_ops_found:
  assumes "set ns \<subseteq> insert h (name ` set (vars (global_block (programs w a))))"
  shows "prepend_feed_ops a ns h w =
     (Inr (), set_global_block a
        ((global_block (programs w a))
         \<lparr>vars := store_var \<lparr>name = h, shape = None, dtype = None, type = FEED_MINIBATCH,
                    lod_level = None, persistable = True, is_Parameter = False\<rparr>
                  (vars (global_block (programs w a))),
          ops := rev (map (\<lambda>(j, n). feed_node h n j) (enumerate 0 ns))
                  @ ops (global_block (programs w a))\<rparr>) w)"
proof -
  let ?v = "\<lparr>name = h, shape = None, dtype = None, type = FEED_MINIBATCH,
              lod_level = None, persistable = True, is_Parameter = False\<rparr>"
  let ?b = "(global_block (programs w a))\<lparr>vars := store_var ?v (vars (global_block (programs w a)))\<rparr>"
  have "set ns \<subseteq> name ` set (vars ?b)"
    using assms by (simp add: store_var_names)
  from prepend_feed_each_found [OF this, of ?v 0] show ?thesis
    by (simp add: prepend_feed_ops_def create_var_def Let_def)
qed

lemma append_fetch_ops_eq:
  "append_fetch_ops a ns h w =
     (Inr (), set_global_block a
        ((global_block (programs w a))
         \<lparr>vars := store_var \<lparr>name = h, shape = None, dtype = None, type = FETCH_LIST,
                    lod_level = None, persistable = True, is_Parameter = False\<rparr>
                  (vars (global_block (programs w a))),
          ops := ops (global_block (programs w a))
                  @ map (\<lambda>(j, n). fetch_node h n j) (enumerate 0 ns)\<rparr>) w)"
  by (simp add: append_fetch_ops_def create_var_def Let_def append_fetch_each_ops)

lemma set_global_block_programs:
  "programs (set_global_block a b w) = (programs w)(a := (programs w a)\<lparr>global_block := b\<rparr>)"
  by (simp add: set_global_block_def)

lemma feed_names_after_prepend:
  assumes "set ns \<subseteq> insert h (name ` set (vars (global_block (programs w a))))"
  shows "get_feed_targets_names (programs (snd (prepend_feed_ops a ns h w)) a) =
     (case get_feed_targets_names (programs w a) of
        Inl e \<Rightarrow> Inl e
      | Inr old \<Rightarrow> Inr (old @ ns))"
proof -
  have "feed_targets_loop (rev (map (\<lambda>(j, n). feed_node h n j) (enumerate 0 ns))) [] = Inr ns"
    using feed_targets_loop_nodes [of h "rev (enumerate 0 ns)" "[]"]
    by (simp add: rev_map map_snd_enumerate)
  then show ?thesis
    using feed_targets_loop_acc [of "ops (global_block (programs w a))" ns]
    by (simp add: prepend_feed_ops_found [OF assms] set_global_block_programs
          get_feed_targets_names_def feed_targets_loop_append)
qed

lemma fetch_names_after_append:
  "get_fetch_targets_names (programs (snd (append_fetch_ops a ns h w)) a) =
     (case get_fetch_targets_names (programs w a) of
        Inl e \<Rightarrow> Inl e
      | Inr old \<Rightarrow> Inr (old @ ns))"
  by (simp add: append_fetch_ops_eq set_global_block_programs get_fetch_targets_names_def
        fetch_targets_loop_append fetch_targets_loop_nodes map_snd_enumerate split: sum.splits)

text \<open>
  C9, as the code has it. For a program whose global block holds no \<^verbatim>\<open>feed\<close> operator
  and names that are variables of that block (or the holder),
  \<^verbatim>\<open>prepend_feed_ops(program, names)\<close> completes and \<^verbatim>\<open>get_feed_targets_names\<close> then
  returns exactly \<open>names\<close>, in order; for a program whose global block holds no
  \<^verbatim>\<open>fetch\<close> operator, \<^verbatim>\<open>append_fetch_ops(program, names)\<close> followed by
  \<^verbatim>\<open>get_fetch_targets_names\<close> returns exactly \<open>names\<close>.
\<close>

theorem markers_round_trip:
  "(list_all (\<lambda>opr. op_type opr \<noteq> ''feed'') (ops (global_block (programs w a))) \<and>
    set names \<subseteq> insert holder (name ` set (vars (global_block (programs w a)))) \<longrightarrow>
      fst (prepend_feed_ops a names holder w) = Inr () \<and>
      get_feed_targets_names (programs (snd (prepend_feed_ops a names holder w)) a) = Inr names) \<and>
   (list_all (\<lambda>opr. op_type opr \<noteq> ''fetch'') (ops (global_block (programs w a))) \<longrightarrow>
      fst (append_fetch_ops a names holder w) = Inr () \<and>
      get_fetch_targets_names (programs (snd (append_fetch_ops a names holder w)) a) = Inr names)"
proof -
  have f: "get_feed_targets_names (programs w a) = Inr []"
    if "list_all (\<lambda>opr. op_type opr \<noteq> ''feed'') (ops (global_block (programs w a)))"
    using that by (simp add: get_feed_targets_names_def feed_targets_loop_none)
  have g: "get_fetch_targets_names (programs w a) = Inr []"
    if "list_all (\<lambda>opr. op_type opr \<noteq> ''fetch'') (ops (global_block (programs w a)))"
    using that by (simp add: get_fetch_targets_names_def fetch_targets_loop_none)
  have p: "fst (prepend_feed_ops a names holder w) = Inr ()"
    if "set names \<subseteq> insert holder (name ` set (vars (global_block (programs w a))))"
    using prepend_feed_ops_found [OF that] by simp
  have q: "fst (append_fetch_ops a names holder w) = Inr ()"
    by (simp add: append_fetch_ops_eq)
  show ?thesis
    using f g p q feed_names_after_prepend [of names holder w a]
      fetch_names_after_append [of a names holder w]
    by simp
qed

theorem markers_round_trip_witness:
  "fst (prepend_feed_ops 0 [''x'', ''w''] ''feed'' world0) = Inr () \<and>
   get_feed_targets_names (programs (snd (prepend_feed_ops 0 [''x'', ''w''] ''feed'' world0)) 0)
     = Inr [''x'', ''w''] \<and>
   get_fetch_targets_names (programs (snd (append_fetch_ops 0 [''y'', ''mean''] ''fetch'' world0)) 0)
     = Inr [''y'', ''mean'']"
proof -
  have a: "ops (global_block (programs world0 0)) = [mul_op]"
    "vars (global_block (programs world0 0)) = [var_x, var_w, var_mean, var_y]"
    by (simp_all add: world0_def net_def)
  show ?thesis
    using markers_round_trip [of world0 0 "[''x'', ''w'']" "''feed''"]
      markers_round_trip [of world0 0 "[''y'', ''mean'']" "''fetch''"]
    by (simp add: a mul_op_def var_x_def var_w_def)
qed

theorem markers_round_trip_counterexample:
  "fst (prepend_feed_ops 1 [''w''] ''feed'' world0) = Inr () \<and>
   get_feed_targets_names (programs (snd (prepend_feed_ops 1 [''w''] ''feed'' world0)) 1)
     = Inr [''x'', ''w''] \<and>
   get_feed_targets_names (programs (snd (prepend_feed_ops 1 [''w''] ''feed'' world0)) 1)
     \<noteq> Inr [''w''] \<and>
   fst (append_fetch_ops 1 [''mean''] ''fetch'' world0) = Inr () \<and>
   get_fetch_targets_names (programs (snd (append_fetch_ops 1 [''mean''] ''fetch'' world0)) 1)
     = Inr [''y'', ''mean'']"
  by (simp add: prepend_feed_ops_def append_fetch_ops_def create_var_def Let_def world0_def
        served_net_def set_global_block_def block_var_def prepend_op_def append_op_def
        feed_op_def fetch_op_def get_feed_targets_names_def get_fetch_targets_names_def
        first_arg_def mul_op_def var_x_def var_w_def var_mean_def var_y_def feed_var0_def
        fetch_var0_def)

subsection \<open>The steps of save_inference_model\<close>








lemma marked_steps:
  "(q\<lparr>global_block := global_block q
        \<lparr>vars := store_var \<lparr>name = ''feed'', shape = None, dtype = None, type = FEED_MINIBATCH,
                    lod_level = None, persistable = True, is_Parameter = False\<rparr>
                  (vars (global_block q)),
          ops := rev (map (\<lambda>(j, n). feed_node ''feed'' n j) (enumerate 0 feeds))
                  @ ops (global_block q)\<rparr>\<rparr>)
     \<lparr>global_block := global_block q
        \<lparr>vars := store_var \<lparr>name = ''fetch'', shape = None, dtype = None, type = FETCH_LIST,
                    lod_level = None, persistable = True, is_Parameter = False\<rparr>
                  (store_var \<lparr>name = ''feed'', shape = None, dtype = None,
                     type = FEED_MINIBATCH, lod_level = None, persistable = True,
                     is_Parameter = False\<rparr> (vars (global_block q))),
          ops := (rev (map (\<lambda>(j, n). feed_node ''feed'' n j) (enumerate 0 feeds))
                  @ ops (global_block q))
                  @ map (\<lambda>(j, n). fetch_node ''fetch'' n j) (enumerate 0 fetches)\<rparr>\<rparr>
   = marked q feeds fetches"
  by (simp add: marked_def feed_var0_def fetch_var0_def)


subsection \<open>Files written by the executor\<close>









lemma os_path_isdir_dirs: "dirs f' = dirs f \<Longrightarrow> os_path_isdir f' d = os_path_isdir f d"
  by (simp add: os_path_isdir_def)



lemma example_checks:
  "check_feeded_var_names (PyStr ''x'') = Inr [PyStr ''x'']"
  "check_target_vars (PyVar var_y) = Inr [PyVar var_y]"
  by (simp_all add: check_feeded_var_names_def check_target_vars_def)

lemma example_ensure_dir:
  "ensure_dir ''model'' world0 = (Inr (), world0\<lparr>fs := \<lparr>dirs = [[], [''model'']], files = []\<rparr>\<rparr>)"
  by (simp add: ensure_dir_def os_path_isdir_def os_makedirs_def components_def world0_def
        Let_def prefixes_snoc [of "[]" "''model''", simplified])


subsection \<open>The inference program and the model directory\<close>








end
